theory Spec2Isabelle
  imports Main
begin

section \<open>The Infura proxy handler of \<^verbatim>\<open>src/lambda/index.js\<close>\<close>

text \<open>
  The module exports one asynchronous function, \<^verbatim>\<open>handler\<close>. It reads two environment
  variables, answers the CORS preflight, refuses every method but POST, and otherwise
  forwards the request body to the configured endpoint with \<^verbatim>\<open>fetch\<close>.

  The embedding follows the source line by line. What the JavaScript runtime provides
  (\<^verbatim>\<open>fetch\<close>, \<^verbatim>\<open>JSON.stringify\<close>) is a parameter of the model; what the handler does to
  the outside (the calls of \<^verbatim>\<open>fetch\<close>, the calls of \<^verbatim>\<open>console.debug\<close>) is returned
  beside its completion, and a thrown exception is a value.
\<close>

subsection \<open>Values\<close>

text \<open>
  A JavaScript error object, as far as the handler reads it: \<^verbatim>\<open>error.message\<close>.
  The name tells a \<^verbatim>\<open>TypeError\<close> from a \<^verbatim>\<open>ReferenceError\<close>.
\<close>

datatype js_error = JsError (error_name: string) (error_message: string)

text \<open>
  The values \<^verbatim>\<open>JSON.stringify\<close> is applied to: the object literal of lines 32-36 and the
  payload that \<^verbatim>\<open>response.json()\<close> yields. JavaScript numbers are IEEE doubles; their
  type is left open.
\<close>

datatype 'n json =
    JNull
  | JBool bool
  | JNumber 'n
  | JString string
  | JArray "'n json list"
  | JObject "(string \<times> 'n json) list"

text \<open>
  An object whose properties are strings, in insertion order: the \<^verbatim>\<open>headers\<close> objects.
\<close>

type_synonym headers = "(string \<times> string) list"

text \<open>
  Defining a property: an existing key keeps its place and takes the new value, a new key
  goes last.
\<close>

fun set_property :: "string \<Rightarrow> string \<Rightarrow> headers \<Rightarrow> headers" where
  "set_property k v [] = [(k, v)]"
| "set_property k v (p # ps) =
     (if fst p = k then (k, v) # ps else p # set_property k v ps)"

text \<open>
  The object literal \<^verbatim>\<open>{ ...literal properties, ...src }\<close>: the properties of \<^verbatim>\<open>src\<close> are
  defined on the object built so far, in their order.
\<close>

definition spread :: "headers \<Rightarrow> headers \<Rightarrow> headers" where
  "spread obj src = foldl (\<lambda>acc p. set_property (fst p) (snd p) acc) obj src"

subsection \<open>The event, the environment and the response\<close>

text \<open>
  The object the platform passes, as far as the handler reads it: \<^verbatim>\<open>event.httpMethod\<close>
  and \<^verbatim>\<open>event.body\<close>. \<open>None\<close> is a property that is absent (or not a string).
\<close>

record request =
  httpMethod :: "string option"
  body :: "string option"

text \<open>
  An invocation can pass any JSON value as the event. Reading a property of
  \<^verbatim>\<open>undefined\<close> or \<^verbatim>\<open>null\<close> throws a \<^verbatim>\<open>TypeError\<close>.
\<close>

datatype js_event = Undefined | Null | Object request

text \<open>\<^verbatim>\<open>process.env\<close>: a variable is a string, or \<^verbatim>\<open>undefined\<close> when it is not set.\<close>

record env =
  INFURA_ENDPOINT :: "string option"
  ALLOW_ORIGIN :: "string option"

text \<open>The object the handler returns (lines 49-58, 63-68, 88-96, 31-43).\<close>

record response =
  resp_body :: string
  resp_headers :: headers
  isBase64Encoded :: bool
  statusCode :: int

subsection \<open>The runtime\<close>

text \<open>The second argument of \<^verbatim>\<open>fetch\<close> (lines 72-78).\<close>

record fetch_init =
  init_method :: string
  init_headers :: headers
  init_body :: "string option"

text \<open>One call of \<^verbatim>\<open>fetch\<close>: the resource and the options.\<close>

record fetch_call =
  call_url :: "string option"
  call_init :: fetch_init

text \<open>
  The \<^verbatim>\<open>Response\<close> that \<^verbatim>\<open>fetch\<close> resolves with, as far as the handler reads it:
  \<^verbatim>\<open>response.ok\<close>, \<^verbatim>\<open>response.status\<close>, \<^verbatim>\<open>response.statusText\<close>, and what
  \<^verbatim>\<open>await response.json()\<close> gives: the parsed body, or the error it rejects with.
\<close>

record 'n http_response =
  ok :: bool
  status :: int
  statusText :: string
  json_result :: "js_error + 'n json"

datatype 'n fetch_result = Rejected js_error | Resolved "'n http_response"

text \<open>
  The two runtime functions the handler calls. \<^verbatim>\<open>fetch\<close> is any function of its two
  arguments: the upstream service is not part of the program.
\<close>

record 'n runtime =
  fetch :: "string option \<Rightarrow> fetch_init \<Rightarrow> 'n fetch_result"
  JSON_stringify :: "'n json \<Rightarrow> string"

text \<open>
  How an invocation ends: the promise of the asynchronous function is fulfilled with the
  returned object, or rejected with the exception thrown out of the function body.
\<close>

datatype completion = Returned response | Threw js_error

text \<open>One invocation: its effects in order, and its completion.\<close>

record run =
  fetch_calls :: "fetch_call list"
  console_debug :: "js_error list"
  outcome :: completion

subsection \<open>The handler\<close>

text \<open>Lines 26-29. \<^verbatim>\<open>??\<close> takes the right operand when the left one is \<^verbatim>\<open>undefined\<close>.\<close>

definition commonHeaders :: "env \<Rightarrow> headers" where
  "commonHeaders e =
     [(''Access-Control-Allow-Credentials'', ''true''),
      (''Access-Control-Allow-Origin'',
         (case ALLOW_ORIGIN e of None \<Rightarrow> ''*'' | Some v \<Rightarrow> v))]"

text \<open>
  The identifier \<^verbatim>\<open>response\<close> as line 42 resolves it. The arrow function of lines 31-43
  is created in the scope of the function body, which declares \<^verbatim>\<open>INFURA_ENDPOINT\<close>,
  \<^verbatim>\<open>ALLOW_ORIGIN\<close>, \<^verbatim>\<open>commonHeaders\<close> and \<^verbatim>\<open>errorResponse\<close> beside the parameter
  \<^verbatim>\<open>event\<close>. The only declaration of \<^verbatim>\<open>response\<close> is the \<^verbatim>\<open>const\<close> of line 72, scoped to
  the block of \<^verbatim>\<open>try\<close>; the module declares \<^verbatim>\<open>handler\<close> alone and the runtime has no global
  of that name. So the identifier has no binding there.
\<close>

definition response_in_scope :: "'n http_response option" where
  "response_in_scope = None"

definition ReferenceError_response :: js_error where
  "ReferenceError_response = JsError ''ReferenceError'' ''response is not defined''"

text \<open>
  Lines 31-43. The properties of the object literal are evaluated in order: \<^verbatim>\<open>body\<close>,
  \<^verbatim>\<open>headers\<close>, \<^verbatim>\<open>isBase64Encoded\<close>, then \<^verbatim>\<open>statusCode\<close>, which reads
  \<^verbatim>\<open>response.status\<close>. Reading an identifier with no binding throws a
  \<^verbatim>\<open>ReferenceError\<close>.
\<close>

definition errorResponse :: "'n runtime \<Rightarrow> env \<Rightarrow> string \<Rightarrow> js_error + response" where
  "errorResponse rt e message =
     (let b = JSON_stringify rt
                (JObject [(''error'', JObject [(''message'', JString message)])]);
          h = spread [(''Content-Type'', ''application/json'')] (commonHeaders e)
      in case (response_in_scope :: 'n http_response option) of
           None \<Rightarrow> Inl ReferenceError_response
         | Some response \<Rightarrow>
             Inr \<lparr>resp_body = b, resp_headers = h, isBase64Encoded = False,
                  statusCode = status response\<rparr>)"

text \<open>The options of the call of \<^verbatim>\<open>fetch\<close>, lines 73-77.\<close>

definition request_init :: "request \<Rightarrow> fetch_init" where
  "request_init ev =
     \<lparr>init_method = ''POST'',
      init_headers = [(''Content-Type'', ''application/json'')],
      init_body = body ev\<rparr>"

definition TypeError_httpMethod :: "string \<Rightarrow> js_error" where
  "TypeError_httpMethod v =
     JsError ''TypeError'' (''Cannot read properties of '' @ v @ '' (reading 'httpMethod')'')"

text \<open>
  The block of \<^verbatim>\<open>try\<close>, lines 45-96: the calls of \<^verbatim>\<open>fetch\<close> it made, and the object it
  returns (\<open>Inr\<close>) or the exception it throws (\<open>Inl\<close>). An exception of \<^verbatim>\<open>fetch\<close>, of
  \<^verbatim>\<open>response.json()\<close> and of \<^verbatim>\<open>errorResponse\<close> at line 82 is thrown inside the block.
\<close>

definition try_block ::
  "'n runtime \<Rightarrow> env \<Rightarrow> js_event \<Rightarrow> fetch_call list \<times> (js_error + response)" where
  "try_block rt e event =
     (case event of
        Undefined \<Rightarrow> ([], Inl (TypeError_httpMethod ''undefined''))
      | Null \<Rightarrow> ([], Inl (TypeError_httpMethod ''null''))
      | Object ev \<Rightarrow>
          if httpMethod ev = Some ''OPTIONS'' then
            ([], Inr \<lparr>resp_body = '''',
                      resp_headers =
                        spread
                          [(''Access-Control-Allow-Headers'', ''Authorization,Content-type''),
                           (''Access-Control-Allow-Methods'', ''OPTIONS,POST'')]
                          (commonHeaders e),
                      isBase64Encoded = False,
                      statusCode = 200\<rparr>)
          else if httpMethod ev \<noteq> Some ''POST'' then
            ([], Inr \<lparr>resp_body = '''',
                      resp_headers = commonHeaders e,
                      isBase64Encoded = False,
                      statusCode = 405\<rparr>)
          else
            ([\<lparr>call_url = INFURA_ENDPOINT e, call_init = request_init ev\<rparr>],
             (case fetch rt (INFURA_ENDPOINT e) (request_init ev) of
                Rejected err \<Rightarrow> Inl err
              | Resolved response \<Rightarrow>
                  if \<not> ok response then errorResponse rt e (statusText response)
                  else
                    (case json_result response of
                       Inl err \<Rightarrow> Inl err
                     | Inr payload \<Rightarrow>
                         Inr \<lparr>resp_body = JSON_stringify rt payload,
                              resp_headers =
                                spread [(''Content-Type'', ''application/json'')]
                                  (commonHeaders e),
                              isBase64Encoded = False,
                              statusCode = status response\<rparr>))))"

text \<open>
  Lines 22-101. The clause \<^verbatim>\<open>catch\<close> (lines 97-100) logs the exception and returns what
  \<^verbatim>\<open>errorResponse\<close> gives; an exception thrown there leaves the function.
\<close>

definition handler :: "'n runtime \<Rightarrow> env \<Rightarrow> js_event \<Rightarrow> run" where
  "handler rt e event =
     (case try_block rt e event of
        (calls, Inr r) \<Rightarrow>
          \<lparr>fetch_calls = calls, console_debug = [], outcome = Returned r\<rparr>
      | (calls, Inl error) \<Rightarrow>
          \<lparr>fetch_calls = calls, console_debug = [error],
           outcome =
             (case errorResponse rt e (error_message error) of
                Inl err \<Rightarrow> Threw err
              | Inr r \<Rightarrow> Returned r)\<rparr>)"

subsection \<open>What the statements below speak of\<close>

text \<open>
  The strings of a returned object that reach the client as text: the body, and the names
  and values of the headers.
\<close>

definition text_fields :: "response \<Rightarrow> string list" where
  "text_fields r = resp_body r # map fst (resp_headers r) @ map snd (resp_headers r)"

text \<open>The string literals of lines 26-96 that can stand in a returned object.\<close>

definition string_literals :: "string list" where
  "string_literals =
     ['''', ''true'', ''*'', ''application/json'',
      ''Authorization,Content-type'', ''OPTIONS,POST'',
      ''Content-Type'', ''Access-Control-Allow-Credentials'',
      ''Access-Control-Allow-Origin'', ''Access-Control-Allow-Headers'',
      ''Access-Control-Allow-Methods'']"

subsection \<open>Example invocations\<close>

text \<open>Two environments: with an allowed origin, and without.\<close>

definition example_env :: env where
  "example_env =
     \<lparr>INFURA_ENDPOINT = Some ''https://mainnet.infura.io/v3/0123456789abcdef'',
      ALLOW_ORIGIN = Some ''https://app.example.org''\<rparr>"

definition env_no_origin :: env where
  "env_no_origin =
     \<lparr>INFURA_ENDPOINT = Some ''https://mainnet.infura.io/v3/0123456789abcdef'',
      ALLOW_ORIGIN = None\<rparr>"

text \<open>Three events: a JSON-RPC call, a preflight, and a method the handler refuses.\<close>

definition example_post :: request where
  \<open>example_post =
     \<lparr>httpMethod = Some ''POST'',
      body = Some ''{"jsonrpc":"2.0","method":"eth_blockNumber","id":1}''\<rparr>\<close>

definition example_options :: request where
  "example_options = \<lparr>httpMethod = Some ''OPTIONS'', body = None\<rparr>"

definition example_get :: request where
  "example_get = \<lparr>httpMethod = Some ''GET'', body = None\<rparr>"

text \<open>
  The numbers of the examples: the integers among the doubles, and the three values of
  the type that are not finite. \<^verbatim>\<open>response.json()\<close> yields \<^verbatim>\<open>Infinity\<close> for a number
  literal beyond the range of a double, such as \<^verbatim>\<open>1e400\<close>.
\<close>

datatype js_number = Finite int | PosInfinity | NegInfinity | NaN

text \<open>A JSON-RPC answer, and its text.\<close>

definition example_payload :: "js_number json" where
  "example_payload =
     JObject [(''jsonrpc'', JString ''2.0''), (''id'', JNumber (Finite 1)),
              (''result'', JString ''0x10'')]"

definition example_payload_text :: string where
  \<open>example_payload_text = ''{"jsonrpc":"2.0","id":1,"result":"0x10"}''\<close>

text \<open>
  \<^verbatim>\<open>JSON.stringify\<close> of the example runtime. It follows the serialisation of ECMAScript
  on the values of the examples: strings with no character to escape, integers of less
  than 21 digits, objects with distinct keys that are not array indices. A number that is
  not finite is written \<^verbatim>\<open>null\<close>.
\<close>

fun decimal_digits :: "nat \<Rightarrow> string" where
  "decimal_digits n =
     (if n < 10 then [''0123456789'' ! n]
      else decimal_digits (n div 10) @ [''0123456789'' ! (n mod 10)])"

declare decimal_digits.simps [simp del]

definition number_text :: "js_number \<Rightarrow> string" where
  "number_text n =
     (case n of
        Finite i \<Rightarrow>
          (if i < 0 then ''-'' @ decimal_digits (nat (- i)) else decimal_digits (nat i))
      | PosInfinity \<Rightarrow> ''null''
      | NegInfinity \<Rightarrow> ''null''
      | NaN \<Rightarrow> ''null'')"

definition quote_string :: "string \<Rightarrow> string" where
  \<open>quote_string s = ''"'' @ s @ ''"''\<close>

fun join_commas :: "string list \<Rightarrow> string" where
  "join_commas [] = []"
| "join_commas [s] = s"
| "join_commas (s # t # ts) = s @ '','' @ join_commas (t # ts)"

fun example_stringify :: "js_number json \<Rightarrow> string" where
  "example_stringify JNull = ''null''"
| "example_stringify (JBool b) = (if b then ''true'' else ''false'')"
| "example_stringify (JNumber n) = number_text n"
| "example_stringify (JString s) = quote_string s"
| "example_stringify (JArray vs) =
     ''['' @ join_commas (map example_stringify vs) @ '']''"
| "example_stringify (JObject ps) =
     ''{'' @ join_commas
              (map (\<lambda>p. quote_string (fst p) @ '':'' @ example_stringify (snd p)) ps)
         @ ''}''"

text \<open>
  \<^verbatim>\<open>JSON.parse\<close> on the two texts the examples read back: the text of the answer above,
  and \<^verbatim>\<open>null\<close>.
\<close>

definition example_parse :: "string \<Rightarrow> js_number json option" where
  "example_parse s =
     (if s = example_payload_text then Some example_payload
      else if s = ''null'' then Some JNull
      else None)"

text \<open>An upstream that answers 200 with the JSON-RPC answer.\<close>

definition upstream_200 :: "js_number http_response" where
  "upstream_200 =
     \<lparr>ok = True, status = 200, statusText = ''OK'', json_result = Inr example_payload\<rparr>"

definition runtime_200 :: "js_number runtime" where
  "runtime_200 =
     \<lparr>fetch = (\<lambda>url init. Resolved upstream_200), JSON_stringify = example_stringify\<rparr>"

text \<open>
  An upstream that answers 200 with the body \<^verbatim>\<open>1e400\<close>, which \<^verbatim>\<open>response.json()\<close>
  reads as \<^verbatim>\<open>Infinity\<close>.
\<close>

definition upstream_overflow :: "js_number http_response" where
  "upstream_overflow =
     \<lparr>ok = True, status = 200, statusText = ''OK'',
      json_result = Inr (JNumber PosInfinity)\<rparr>"

definition runtime_overflow :: "js_number runtime" where
  "runtime_overflow =
     \<lparr>fetch = (\<lambda>url init. Resolved upstream_overflow),
      JSON_stringify = example_stringify\<rparr>"

text \<open>An upstream that answers 500 with an empty body.\<close>

definition upstream_500 :: "js_number http_response" where
  "upstream_500 =
     \<lparr>ok = False, status = 500, statusText = ''Internal Server Error'',
      json_result = Inl (JsError ''SyntaxError'' ''Unexpected end of JSON input'')\<rparr>"

definition runtime_500 :: "js_number runtime" where
  "runtime_500 =
     \<lparr>fetch = (\<lambda>url init. Resolved upstream_500), JSON_stringify = example_stringify\<rparr>"

text \<open>An upstream that cannot be reached: \<^verbatim>\<open>fetch\<close> rejects.\<close>

definition runtime_offline :: "js_number runtime" where
  "runtime_offline =
     \<lparr>fetch = (\<lambda>url init. Rejected (JsError ''TypeError'' ''fetch failed'')),
      JSON_stringify = example_stringify\<rparr>"

text \<open>An upstream that answers 200 with an empty body: \<^verbatim>\<open>response.json()\<close> rejects.\<close>

definition upstream_200_empty :: "js_number http_response" where
  "upstream_200_empty =
     \<lparr>ok = True, status = 200, statusText = ''OK'',
      json_result = Inl (JsError ''SyntaxError'' ''Unexpected end of JSON input'')\<rparr>"

definition runtime_200_empty :: "js_number runtime" where
  "runtime_200_empty =
     \<lparr>fetch = (\<lambda>url init. Resolved upstream_200_empty),
      JSON_stringify = example_stringify\<rparr>"

text \<open>
  An upstream whose answer, whatever the address it is called at, is a JSON string that
  names the address of the first environment.
\<close>

definition upstream_echo :: "js_number http_response" where
  "upstream_echo =
     \<lparr>ok = True, status = 200, statusText = ''OK'',
      json_result = Inr (JString ''https://mainnet.infura.io/v3/0123456789abcdef'')\<rparr>"

definition runtime_echo :: "js_number runtime" where
  "runtime_echo =
     \<lparr>fetch = (\<lambda>url init. Resolved upstream_echo), JSON_stringify = example_stringify\<rparr>"

section \<open>Properties\<close>

subsection \<open>The header objects\<close>

lemma spread_Content_Type:
  "spread [(''Content-Type'', ''application/json'')] (commonHeaders e) =
     (''Content-Type'', ''application/json'') # commonHeaders e"
  by (simp add: spread_def commonHeaders_def)

lemma spread_preflight:
  "spread
     [(''Access-Control-Allow-Headers'', ''Authorization,Content-type''),
      (''Access-Control-Allow-Methods'', ''OPTIONS,POST'')] (commonHeaders e) =
   [(''Access-Control-Allow-Headers'', ''Authorization,Content-type''),
    (''Access-Control-Allow-Methods'', ''OPTIONS,POST'')] @ commonHeaders e"
  by (simp add: spread_def commonHeaders_def)

lemma map_of_commonHeaders:
  "map_of (commonHeaders e) ''Access-Control-Allow-Credentials'' = Some ''true''"
  "map_of (commonHeaders e) ''Access-Control-Allow-Origin'' =
     Some (case ALLOW_ORIGIN e of None \<Rightarrow> ''*'' | Some v \<Rightarrow> v)"
  by (simp_all add: commonHeaders_def)

lemma commonHeaders_example_env:
  "commonHeaders example_env =
     [(''Access-Control-Allow-Credentials'', ''true''),
      (''Access-Control-Allow-Origin'', ''https://app.example.org'')]"
  by (simp add: commonHeaders_def example_env_def)

lemma commonHeaders_endpoint:
  "commonHeaders (e\<lparr>INFURA_ENDPOINT := u\<rparr>) = commonHeaders e"
  by (simp add: commonHeaders_def)

subsection \<open>The error path\<close>

lemma errorResponse_throws:
  "errorResponse rt e message = Inl ReferenceError_response"
  by (simp add: errorResponse_def response_in_scope_def Let_def)

lemma try_block_Inl_handler:
  "try_block rt e event = (calls, Inl error) \<Longrightarrow>
     handler rt e event =
       \<lparr>fetch_calls = calls, console_debug = [error],
        outcome = Threw ReferenceError_response\<rparr>"
  by (simp add: handler_def errorResponse_throws)

lemma try_block_Inr_handler:
  "try_block rt e event = (calls, Inr r) \<Longrightarrow>
     handler rt e event = \<lparr>fetch_calls = calls, console_debug = [], outcome = Returned r\<rparr>"
  by (simp add: handler_def)

lemma handler_snd_try_block:
  "outcome (handler rt e event) =
     (case snd (try_block rt e event) of
        Inl error \<Rightarrow> Threw ReferenceError_response
      | Inr r \<Rightarrow> Returned r)"
  by (simp add: handler_def errorResponse_throws split: prod.splits sum.splits)

lemma Returned_try_block:
  assumes "outcome (handler rt e event) = Returned r"
  shows "\<exists>calls. try_block rt e event = (calls, Inr r)"
proof -
  obtain calls res where tb: "try_block rt e event = (calls, res)"
    by (cases "try_block rt e event")
  show ?thesis
  proof (cases res)
    case (Inl error)
    with tb assms show ?thesis
      by (simp add: try_block_Inl_handler)
  next
    case (Inr r')
    with tb assms show ?thesis
      by (simp add: try_block_Inr_handler)
  qed
qed

lemma try_block_rejection:
  assumes "httpMethod ev = Some ''POST''"
    and "fetch rt (INFURA_ENDPOINT e) (request_init ev) = Resolved response"
    and "\<not> ok response"
  shows "try_block rt e (Object ev) =
           ([\<lparr>call_url = INFURA_ENDPOINT e, call_init = request_init ev\<rparr>],
            Inl ReferenceError_response)"
  using assms by (simp add: try_block_def errorResponse_throws)

text \<open>What the block of \<^verbatim>\<open>try\<close> returns is one of the three object literals.\<close>

lemma try_block_Inr_cases:
  assumes "try_block rt e event = (calls, Inr r)"
  shows "resp_headers r =
           [(''Access-Control-Allow-Headers'', ''Authorization,Content-type''),
            (''Access-Control-Allow-Methods'', ''OPTIONS,POST'')] @ commonHeaders e
         \<and> resp_body r = ''''
       \<or> resp_headers r = commonHeaders e \<and> resp_body r = ''''
       \<or> resp_headers r = (''Content-Type'', ''application/json'') # commonHeaders e
         \<and> (\<exists>ev response B. event = Object ev
               \<and> fetch rt (INFURA_ENDPOINT e) (request_init ev) = Resolved response
               \<and> json_result response = Inr B
               \<and> resp_body r = JSON_stringify rt B)"
proof (cases event)
  case Undefined
  with assms show ?thesis by (simp add: try_block_def)
next
  case Null
  with assms show ?thesis by (simp add: try_block_def)
next
  case (Object ev)
  show ?thesis
  proof (cases "fetch rt (INFURA_ENDPOINT e) (request_init ev)")
    case (Rejected err)
    with assms Object show ?thesis
      by (auto simp: try_block_def spread_preflight split: if_splits)
  next
    case (Resolved response)
    with assms Object show ?thesis
      by (auto simp: try_block_def spread_preflight spread_Content_Type errorResponse_throws
               split: if_splits sum.splits)
  qed
qed

lemma try_block_endpoint:
  assumes "\<forall>ev. event = Object ev \<longrightarrow>
             fetch rt u (request_init ev) = fetch rt (INFURA_ENDPOINT e) (request_init ev)"
  shows "snd (try_block rt (e\<lparr>INFURA_ENDPOINT := u\<rparr>) event) = snd (try_block rt e event)"
proof (cases event)
  case Undefined
  then show ?thesis by (simp add: try_block_def)
next
  case Null
  then show ?thesis by (simp add: try_block_def)
next
  case (Object ev)
  with assms
  have "fetch rt u (request_init ev) = fetch rt (INFURA_ENDPOINT e) (request_init ev)"
    by simp
  with Object show ?thesis
    by (simp add: try_block_def commonHeaders_endpoint errorResponse_throws
          split: fetch_result.splits sum.splits)
qed

subsection \<open>The success path\<close>

lemma example_stringify_payload:
  "example_stringify example_payload = example_payload_text"
  by (simp add: example_payload_def example_payload_text_def quote_string_def
        number_text_def decimal_digits.simps)

lemma try_block_success:
  assumes "httpMethod ev = Some ''POST''"
    and "fetch rt (INFURA_ENDPOINT e) (request_init ev) = Resolved response"
    and "ok response"
    and "json_result response = Inr B"
  shows "try_block rt e (Object ev) =
           ([\<lparr>call_url = INFURA_ENDPOINT e, call_init = request_init ev\<rparr>],
            Inr \<lparr>resp_body = JSON_stringify rt B,
                 resp_headers = (''Content-Type'', ''application/json'') # commonHeaders e,
                 isBase64Encoded = False,
                 statusCode = status response\<rparr>)"
  using assms by (simp add: try_block_def spread_Content_Type)

text \<open>
  Claim C1 says that, for a request with \<^verbatim>\<open>httpMethod = "POST"\<close> for which \<^verbatim>\<open>fetch\<close>
  resolves with an ok status and a body that parses as the value \<open>B\<close>, the body of the
  response is equal to \<open>B\<close> after parsing. As stated this fails: the upstream answers 200
  with the body \<^verbatim>\<open>1e400\<close>, \<^verbatim>\<open>response.json()\<close> yields \<^verbatim>\<open>Infinity\<close>, line 89 writes it
  as \<^verbatim>\<open>null\<close>, and \<^verbatim>\<open>null\<close> does not parse as \<^verbatim>\<open>Infinity\<close>.
\<close>

theorem overflowing_number_relayed_as_null:
  "httpMethod example_post = Some ''POST''
   \<and> fetch runtime_overflow (INFURA_ENDPOINT example_env) (request_init example_post)
       = Resolved upstream_overflow
   \<and> ok upstream_overflow
   \<and> json_result upstream_overflow = Inr (JNumber PosInfinity)
   \<and> outcome (handler runtime_overflow example_env (Object example_post)) =
       Returned
         \<lparr>resp_body = ''null'',
          resp_headers =
            [(''Content-Type'', ''application/json''),
             (''Access-Control-Allow-Credentials'', ''true''),
             (''Access-Control-Allow-Origin'', ''https://app.example.org'')],
          isBase64Encoded = False,
          statusCode = 200\<rparr>
   \<and> example_parse ''null'' = Some JNull
   \<and> example_parse ''null'' \<noteq> Some (JNumber PosInfinity)"
proof -
  have h1: "httpMethod example_post = Some ''POST''"
    by (simp add: example_post_def)
  have h2: "fetch runtime_overflow (INFURA_ENDPOINT example_env) (request_init example_post)
              = Resolved upstream_overflow"
    by (simp add: runtime_overflow_def)
  have h3: "ok upstream_overflow"
    by (simp add: upstream_overflow_def)
  have h4: "json_result upstream_overflow = Inr (JNumber PosInfinity)"
    by (simp add: upstream_overflow_def)
  have s: "JSON_stringify runtime_overflow (JNumber PosInfinity) = ''null''"
    by (simp add: runtime_overflow_def number_text_def)
  have u: "status upstream_overflow = 200"
    by (simp add: upstream_overflow_def)
  have p: "example_parse ''null'' = Some JNull"
    by (simp add: example_parse_def example_payload_text_def)
  from try_block_Inr_handler [OF try_block_success [OF h1 h2 h3 h4]]
  have "outcome (handler runtime_overflow example_env (Object example_post)) =
       Returned
         \<lparr>resp_body = ''null'',
          resp_headers =
            [(''Content-Type'', ''application/json''),
             (''Access-Control-Allow-Credentials'', ''true''),
             (''Access-Control-Allow-Origin'', ''https://app.example.org'')],
          isBase64Encoded = False,
          statusCode = 200\<rparr>"
    by (simp add: s u commonHeaders_example_env)
  with h1 h2 h3 h4 p show ?thesis
    by simp
qed

text \<open>
  Claim C1, amended. For a request with \<^verbatim>\<open>httpMethod = "POST"\<close> for which \<^verbatim>\<open>fetch\<close>
  resolves with an ok status \<open>S\<close> and a body that parses as the value \<open>B\<close>, the handler
  returns \<open>statusCode = S\<close>, the headers \<^verbatim>\<open>Content-Type: application/json\<close> and the two
  common headers, and the body \<^verbatim>\<open>JSON.stringify(B)\<close>, the serialisation of \<open>B\<close> by the
  runtime. So the body is equal to \<open>B\<close> after parsing under every reader that reads the
  serialisation of \<open>B\<close> back to \<open>B\<close>.
\<close>

theorem upstream_success_relayed:
  assumes "httpMethod ev = Some ''POST''"
    and "fetch rt (INFURA_ENDPOINT e) (request_init ev) = Resolved response"
    and "ok response"
    and "json_result response = Inr B"
  shows "outcome (handler rt e (Object ev)) =
           Returned
             \<lparr>resp_body = JSON_stringify rt B,
              resp_headers = (''Content-Type'', ''application/json'') # commonHeaders e,
              isBase64Encoded = False,
              statusCode = status response\<rparr>
       \<and> (\<forall>parse. parse (JSON_stringify rt B) = Some B \<longrightarrow>
             (\<exists>r. outcome (handler rt e (Object ev)) = Returned r
                  \<and> parse (resp_body r) = Some B))"
proof -
  from try_block_Inr_handler [OF try_block_success [OF assms]]
  have "outcome (handler rt e (Object ev)) =
           Returned
             \<lparr>resp_body = JSON_stringify rt B,
              resp_headers = (''Content-Type'', ''application/json'') # commonHeaders e,
              isBase64Encoded = False,
              statusCode = status response\<rparr>"
    by simp
  then show ?thesis
    by simp
qed

text \<open>The example of the specification: the upstream answers 200 with a JSON-RPC result.\<close>

theorem upstream_success_relayed_witness:
  "httpMethod example_post = Some ''POST''
   \<and> fetch runtime_200 (INFURA_ENDPOINT example_env) (request_init example_post)
       = Resolved upstream_200
   \<and> ok upstream_200
   \<and> json_result upstream_200 = Inr example_payload
   \<and> outcome (handler runtime_200 example_env (Object example_post)) =
       Returned
         \<lparr>resp_body = example_payload_text,
          resp_headers =
            [(''Content-Type'', ''application/json''),
             (''Access-Control-Allow-Credentials'', ''true''),
             (''Access-Control-Allow-Origin'', ''https://app.example.org'')],
          isBase64Encoded = False,
          statusCode = 200\<rparr>
   \<and> example_parse (JSON_stringify runtime_200 example_payload) = Some example_payload
   \<and> example_parse example_payload_text = Some example_payload"
proof -
  have h1: "httpMethod example_post = Some ''POST''"
    by (simp add: example_post_def)
  have h2: "fetch runtime_200 (INFURA_ENDPOINT example_env) (request_init example_post)
              = Resolved upstream_200"
    by (simp add: runtime_200_def)
  have h3: "ok upstream_200"
    by (simp add: upstream_200_def)
  have h4: "json_result upstream_200 = Inr example_payload"
    by (simp add: upstream_200_def)
  have s: "JSON_stringify runtime_200 example_payload = example_payload_text"
    by (simp add: runtime_200_def example_stringify_payload)
  have p: "example_parse example_payload_text = Some example_payload"
    by (simp add: example_parse_def)
  have u: "status upstream_200 = 200"
    by (simp add: upstream_200_def)
  show ?thesis
    using upstream_success_relayed [OF h1 h2 h3 h4] h1 h2 h3 h4 p
    by (simp add: s u commonHeaders_example_env)
qed

subsection \<open>The error responses\<close>

text \<open>
  Claim C2. For a request with \<^verbatim>\<open>httpMethod = "POST"\<close> for which \<^verbatim>\<open>fetch\<close> resolves with
  a status \<open>S\<close> that is not ok and the status text \<open>T\<close>, the handler is to return
  \<open>statusCode = S\<close> and the body \<^verbatim>\<open>{"error":{"message": T}}\<close>.

  The code does not: when the upstream answers \<^verbatim>\<open>500 Internal Server Error\<close>, line 82
  calls \<^verbatim>\<open>errorResponse\<close>, whose line 42 throws; the clause \<^verbatim>\<open>catch\<close> logs that
  \<^verbatim>\<open>ReferenceError\<close> and calls \<^verbatim>\<open>errorResponse\<close> again, which throws out of the
  handler. No object is returned.
\<close>

theorem upstream_rejection_throws:
  "handler runtime_500 example_env (Object example_post) =
     \<lparr>fetch_calls =
        [\<lparr>call_url = INFURA_ENDPOINT example_env, call_init = request_init example_post\<rparr>],
      console_debug = [ReferenceError_response],
      outcome = Threw ReferenceError_response\<rparr>"
proof -
  have "try_block runtime_500 example_env (Object example_post) =
          ([\<lparr>call_url = INFURA_ENDPOINT example_env,
             call_init = request_init example_post\<rparr>],
           Inl ReferenceError_response)"
    by (rule try_block_rejection [where response = upstream_500])
       (simp_all add: example_post_def runtime_500_def upstream_500_def)
  then show ?thesis
    by (rule try_block_Inl_handler)
qed

text \<open>
  Claim C3. When an exception is raised during processing, the handler is to emit
  diagnostic output and return an error payload whose message is the exception's message.

  The code does not: when \<^verbatim>\<open>fetch\<close> rejects with \<^verbatim>\<open>TypeError: fetch failed\<close>, the
  clause \<^verbatim>\<open>catch\<close> logs the error, and then \<^verbatim>\<open>errorResponse\<close> throws the
  \<^verbatim>\<open>ReferenceError\<close> of line 42. No object is returned.
\<close>

theorem fetch_failure_throws:
  "handler runtime_offline example_env (Object example_post) =
     \<lparr>fetch_calls =
        [\<lparr>call_url = INFURA_ENDPOINT example_env, call_init = request_init example_post\<rparr>],
      console_debug = [JsError ''TypeError'' ''fetch failed''],
      outcome = Threw ReferenceError_response\<rparr>"
proof -
  have "try_block runtime_offline example_env (Object example_post) =
          ([\<lparr>call_url = INFURA_ENDPOINT example_env,
             call_init = request_init example_post\<rparr>],
           Inl (JsError ''TypeError'' ''fetch failed''))"
    by (simp add: try_block_def example_post_def runtime_offline_def)
  then show ?thesis
    by (rule try_block_Inl_handler)
qed

text \<open>
  Claim C4. For every event and every outcome of the upstream call, the invocation is to
  end by returning an object; no exception is to leave the handler.

  The code does not: when the upstream answers 200 with a body that is not JSON,
  \<^verbatim>\<open>response.json()\<close> rejects, and the clause \<^verbatim>\<open>catch\<close> itself throws. The promise of
  the handler is rejected with a \<^verbatim>\<open>ReferenceError\<close>.
\<close>

theorem invalid_json_throws:
  "outcome (handler runtime_200_empty example_env (Object example_post)) =
     Threw ReferenceError_response"
proof -
  have "try_block runtime_200_empty example_env (Object example_post) =
          ([\<lparr>call_url = INFURA_ENDPOINT example_env,
             call_init = request_init example_post\<rparr>],
           Inl (JsError ''SyntaxError'' ''Unexpected end of JSON input''))"
    by (simp add: try_block_def example_post_def runtime_200_empty_def
          upstream_200_empty_def)
  then show ?thesis
    by (simp add: try_block_Inl_handler)
qed

text \<open>
  Claim C5. Whenever \<^verbatim>\<open>errorResponse\<close> is called, evaluating it raises a
  \<^verbatim>\<open>ReferenceError\<close>, since \<^verbatim>\<open>response\<close> is not in its scope. So the branch of line 82
  (the upstream status is not ok) never returns an error payload: the handler throws. So
  does the clause \<^verbatim>\<open>catch\<close>: whatever exception the block of \<^verbatim>\<open>try\<close> throws, the
  handler logs it and then throws the \<^verbatim>\<open>ReferenceError\<close> out of the function. An
  object that the handler returns is one that the block of \<^verbatim>\<open>try\<close> returned itself.
\<close>

theorem errorResponse_raises_ReferenceError:
  "errorResponse rt e message = Inl ReferenceError_response
   \<and> (\<forall>ev response.
         httpMethod ev = Some ''POST''
         \<longrightarrow> fetch rt (INFURA_ENDPOINT e) (request_init ev) = Resolved response
         \<longrightarrow> \<not> ok response
         \<longrightarrow> outcome (handler rt e (Object ev)) = Threw ReferenceError_response)
   \<and> (\<forall>calls error.
         try_block rt e event = (calls, Inl error)
         \<longrightarrow> handler rt e event =
               \<lparr>fetch_calls = calls, console_debug = [error],
                outcome = Threw ReferenceError_response\<rparr>)
   \<and> (\<forall>r. outcome (handler rt e event) = Returned r
         \<longrightarrow> snd (try_block rt e event) = Inr r)"
proof (intro conjI allI impI)
  show "errorResponse rt e message = Inl ReferenceError_response"
    by (rule errorResponse_throws)
next
  fix ev and response :: "'a http_response"
  assume "httpMethod ev = Some ''POST''"
    and "fetch rt (INFURA_ENDPOINT e) (request_init ev) = Resolved response"
    and "\<not> ok response"
  then have "try_block rt e (Object ev) =
               ([\<lparr>call_url = INFURA_ENDPOINT e, call_init = request_init ev\<rparr>],
                Inl ReferenceError_response)"
    by (rule try_block_rejection)
  then show "outcome (handler rt e (Object ev)) = Threw ReferenceError_response"
    by (simp add: try_block_Inl_handler)
next
  fix calls error
  assume "try_block rt e event = (calls, Inl error)"
  then show "handler rt e event =
               \<lparr>fetch_calls = calls, console_debug = [error],
                outcome = Threw ReferenceError_response\<rparr>"
    by (rule try_block_Inl_handler)
next
  fix r
  assume "outcome (handler rt e event) = Returned r"
  then obtain calls where "try_block rt e event = (calls, Inr r)"
    using Returned_try_block by blast
  then show "snd (try_block rt e event) = Inr r"
    by simp
qed

text \<open>
  The upstream answers 500: the handler throws. The upstream cannot be reached: the block
  of \<^verbatim>\<open>try\<close> throws the \<^verbatim>\<open>TypeError\<close>, the handler logs it and throws.
\<close>

theorem errorResponse_raises_ReferenceError_witness:
  "errorResponse runtime_500 example_env ''Internal Server Error''
     = Inl ReferenceError_response
   \<and> httpMethod example_post = Some ''POST''
   \<and> fetch runtime_500 (INFURA_ENDPOINT example_env) (request_init example_post)
       = Resolved upstream_500
   \<and> \<not> ok upstream_500
   \<and> outcome (handler runtime_500 example_env (Object example_post))
       = Threw ReferenceError_response
   \<and> try_block runtime_offline example_env (Object example_post) =
       ([\<lparr>call_url = INFURA_ENDPOINT example_env, call_init = request_init example_post\<rparr>],
        Inl (JsError ''TypeError'' ''fetch failed''))
   \<and> handler runtime_offline example_env (Object example_post) =
       \<lparr>fetch_calls =
          [\<lparr>call_url = INFURA_ENDPOINT example_env,
            call_init = request_init example_post\<rparr>],
        console_debug = [JsError ''TypeError'' ''fetch failed''],
        outcome = Threw ReferenceError_response\<rparr>"
proof -
  have h1: "httpMethod example_post = Some ''POST''"
    by (simp add: example_post_def)
  have h2: "fetch runtime_500 (INFURA_ENDPOINT example_env) (request_init example_post)
              = Resolved upstream_500"
    by (simp add: runtime_500_def)
  have h3: "\<not> ok upstream_500"
    by (simp add: upstream_500_def)
  have h4: "try_block runtime_offline example_env (Object example_post) =
              ([\<lparr>call_url = INFURA_ENDPOINT example_env,
                 call_init = request_init example_post\<rparr>],
               Inl (JsError ''TypeError'' ''fetch failed''))"
    by (simp add: try_block_def example_post_def runtime_offline_def)
  show ?thesis
    using errorResponse_raises_ReferenceError
            [of runtime_500 example_env "''Internal Server Error''" "Object example_post"]
          errorResponse_raises_ReferenceError
            [of runtime_offline example_env "''fetch failed''" "Object example_post"]
          h1 h2 h3 h4
    by simp
qed

subsection \<open>The preflight and the refused methods\<close>

text \<open>
  Claim C6. For a request with \<^verbatim>\<open>httpMethod = "OPTIONS"\<close> the handler returns at once,
  with no call of \<^verbatim>\<open>fetch\<close>: \<open>statusCode\<close> 200, an empty body, and the headers
  \<^verbatim>\<open>Access-Control-Allow-Headers: Authorization,Content-type\<close> and
  \<^verbatim>\<open>Access-Control-Allow-Methods: OPTIONS,POST\<close> with the common headers.
\<close>

theorem preflight_answered:
  assumes "httpMethod ev = Some ''OPTIONS''"
  shows "handler rt e (Object ev) =
           \<lparr>fetch_calls = [], console_debug = [],
            outcome = Returned
              \<lparr>resp_body = '''',
               resp_headers =
                 [(''Access-Control-Allow-Headers'', ''Authorization,Content-type''),
                  (''Access-Control-Allow-Methods'', ''OPTIONS,POST'')] @ commonHeaders e,
               isBase64Encoded = False,
               statusCode = 200\<rparr>\<rparr>"
  using assms by (simp add: handler_def try_block_def spread_preflight)

theorem preflight_answered_witness:
  "httpMethod example_options = Some ''OPTIONS''
   \<and> handler runtime_offline example_env (Object example_options) =
       \<lparr>fetch_calls = [], console_debug = [],
        outcome = Returned
          \<lparr>resp_body = '''',
           resp_headers =
             [(''Access-Control-Allow-Headers'', ''Authorization,Content-type''),
              (''Access-Control-Allow-Methods'', ''OPTIONS,POST''),
              (''Access-Control-Allow-Credentials'', ''true''),
              (''Access-Control-Allow-Origin'', ''https://app.example.org'')],
           isBase64Encoded = False,
           statusCode = 200\<rparr>\<rparr>"
proof -
  have h: "httpMethod example_options = Some ''OPTIONS''"
    by (simp add: example_options_def)
  show ?thesis
    using preflight_answered [OF h, of runtime_offline example_env] h
    by (simp add: commonHeaders_example_env)
qed

text \<open>
  Claim C7. For a request whose \<^verbatim>\<open>httpMethod\<close> is neither \<^verbatim>\<open>"OPTIONS"\<close> nor
  \<^verbatim>\<open>"POST"\<close> the handler returns \<open>statusCode\<close> 405 with an empty body and exactly the
  common headers, and does not call \<^verbatim>\<open>fetch\<close>.
\<close>

theorem other_methods_refused:
  assumes "httpMethod ev \<noteq> Some ''OPTIONS''"
    and "httpMethod ev \<noteq> Some ''POST''"
  shows "handler rt e (Object ev) =
           \<lparr>fetch_calls = [], console_debug = [],
            outcome = Returned
              \<lparr>resp_body = '''',
               resp_headers = commonHeaders e,
               isBase64Encoded = False,
               statusCode = 405\<rparr>\<rparr>"
  using assms by (simp add: handler_def try_block_def)

theorem other_methods_refused_witness:
  "httpMethod example_get \<noteq> Some ''OPTIONS''
   \<and> httpMethod example_get \<noteq> Some ''POST''
   \<and> handler runtime_200 example_env (Object example_get) =
       \<lparr>fetch_calls = [], console_debug = [],
        outcome = Returned
          \<lparr>resp_body = '''',
           resp_headers =
             [(''Access-Control-Allow-Credentials'', ''true''),
              (''Access-Control-Allow-Origin'', ''https://app.example.org'')],
           isBase64Encoded = False,
           statusCode = 405\<rparr>\<rparr>"
proof -
  have h1: "httpMethod example_get \<noteq> Some ''OPTIONS''"
    by (simp add: example_get_def)
  have h2: "httpMethod example_get \<noteq> Some ''POST''"
    by (simp add: example_get_def)
  show ?thesis
    using other_methods_refused [OF h1 h2, of runtime_200 example_env] h1 h2
    by (simp add: commonHeaders_example_env)
qed

subsection \<open>The common headers\<close>

text \<open>
  Claim C8. Every object the handler returns has the header
  \<^verbatim>\<open>Access-Control-Allow-Credentials\<close> with the value \<^verbatim>\<open>"true"\<close> and the header
  \<^verbatim>\<open>Access-Control-Allow-Origin\<close> with the configured origin, or \<^verbatim>\<open>"*"\<close> when none is
  configured.
\<close>

theorem cors_headers_on_every_response:
  assumes "outcome (handler rt e event) = Returned r"
  shows "map_of (resp_headers r) ''Access-Control-Allow-Credentials'' = Some ''true''
       \<and> map_of (resp_headers r) ''Access-Control-Allow-Origin'' =
           Some (case ALLOW_ORIGIN e of None \<Rightarrow> ''*'' | Some v \<Rightarrow> v)"
proof -
  from assms obtain calls where "try_block rt e event = (calls, Inr r)"
    using Returned_try_block by blast
  from try_block_Inr_cases [OF this] show ?thesis
    by (elim disjE conjE) (simp_all add: map_of_commonHeaders)
qed

text \<open>A preflight with no origin configured.\<close>

theorem cors_headers_on_every_response_witness:
  "outcome (handler runtime_offline env_no_origin (Object example_options)) =
     Returned
       \<lparr>resp_body = '''',
        resp_headers =
          [(''Access-Control-Allow-Headers'', ''Authorization,Content-type''),
           (''Access-Control-Allow-Methods'', ''OPTIONS,POST''),
           (''Access-Control-Allow-Credentials'', ''true''),
           (''Access-Control-Allow-Origin'', ''*'')],
        isBase64Encoded = False,
        statusCode = 200\<rparr>
   \<and> map_of
         [(''Access-Control-Allow-Headers'', ''Authorization,Content-type''),
          (''Access-Control-Allow-Methods'', ''OPTIONS,POST''),
          (''Access-Control-Allow-Credentials'', ''true''),
          (''Access-Control-Allow-Origin'', ''*'')]
         ''Access-Control-Allow-Credentials'' = Some ''true''
   \<and> map_of
         [(''Access-Control-Allow-Headers'', ''Authorization,Content-type''),
          (''Access-Control-Allow-Methods'', ''OPTIONS,POST''),
          (''Access-Control-Allow-Credentials'', ''true''),
          (''Access-Control-Allow-Origin'', ''*'')]
         ''Access-Control-Allow-Origin'' = Some ''*''"
proof -
  have h: "outcome (handler runtime_offline env_no_origin (Object example_options)) =
     Returned
       \<lparr>resp_body = '''',
        resp_headers =
          [(''Access-Control-Allow-Headers'', ''Authorization,Content-type''),
           (''Access-Control-Allow-Methods'', ''OPTIONS,POST''),
           (''Access-Control-Allow-Credentials'', ''true''),
           (''Access-Control-Allow-Origin'', ''*'')],
        isBase64Encoded = False,
        statusCode = 200\<rparr>"
    by (simp add: handler_def try_block_def spread_def commonHeaders_def
          example_options_def env_no_origin_def)
  show ?thesis
    using cors_headers_on_every_response [OF h] h
    by (simp add: env_no_origin_def)
qed

subsection \<open>The forwarded request\<close>

text \<open>
  Claim C9. For a request with \<^verbatim>\<open>httpMethod = "POST"\<close> the handler calls \<^verbatim>\<open>fetch\<close>
  exactly once, whatever the upstream does: on the configured endpoint, with the method
  POST, the header \<^verbatim>\<open>Content-Type: application/json\<close>, and the body of the event as it
  came.
\<close>

theorem post_forwarded_once:
  assumes "httpMethod ev = Some ''POST''"
  shows "fetch_calls (handler rt e (Object ev)) =
           [\<lparr>call_url = INFURA_ENDPOINT e,
             call_init =
               \<lparr>init_method = ''POST'',
                init_headers = [(''Content-Type'', ''application/json'')],
                init_body = body ev\<rparr>\<rparr>]"
proof -
  obtain res where
    "try_block rt e (Object ev) =
       ([\<lparr>call_url = INFURA_ENDPOINT e, call_init = request_init ev\<rparr>], res)"
    using assms by (simp add: try_block_def)
  then show ?thesis
    by (cases res)
       (simp_all add: try_block_Inl_handler try_block_Inr_handler request_init_def)
qed

theorem post_forwarded_once_witness:
  \<open>httpMethod example_post = Some ''POST''
   \<and> fetch_calls (handler runtime_offline example_env (Object example_post)) =
       [\<lparr>call_url = Some ''https://mainnet.infura.io/v3/0123456789abcdef'',
         call_init =
           \<lparr>init_method = ''POST'',
            init_headers = [(''Content-Type'', ''application/json'')],
            init_body = Some ''{"jsonrpc":"2.0","method":"eth_blockNumber","id":1}''\<rparr>\<rparr>]\<close>
proof -
  have h: "httpMethod example_post = Some ''POST''"
    by (simp add: example_post_def)
  show ?thesis
    using post_forwarded_once [OF h, of runtime_offline example_env] h
    by (simp add: example_env_def example_post_def)
qed

subsection \<open>The endpoint and the response\<close>

text \<open>
  Claim C10 says that no field of a response contains the endpoint. As stated this
  fails: the handler relays the payload of the upstream as it is, so an upstream whose
  answer names the address puts it into the body. Here the body is the endpoint between
  double quotes.
\<close>

theorem endpoint_in_relayed_payload:
  \<open>INFURA_ENDPOINT example_env = Some ''https://mainnet.infura.io/v3/0123456789abcdef''
   \<and> outcome (handler runtime_echo example_env (Object example_post)) =
       Returned
         \<lparr>resp_body = ''"'' @ ''https://mainnet.infura.io/v3/0123456789abcdef'' @ ''"'',
          resp_headers =
            [(''Content-Type'', ''application/json''),
             (''Access-Control-Allow-Credentials'', ''true''),
             (''Access-Control-Allow-Origin'', ''https://app.example.org'')],
          isBase64Encoded = False,
          statusCode = 200\<rparr>\<close>
  by (simp add: handler_def try_block_def spread_def commonHeaders_def
        example_env_def example_post_def runtime_echo_def upstream_echo_def
        quote_string_def)

text \<open>
  Claim C10, amended. Two invocations that differ only in the configured endpoint, on
  the same event and with \<^verbatim>\<open>fetch\<close> giving the same result at both addresses (the same
  response, or the same rejection), end the same way: the same object returned, or the
  same exception thrown. And where the handler answers a preflight, refuses a method
  other than POST, or relays an ok response of the upstream with a JSON payload, it
  returns an object whose every text field (the body, a header name, a header value) is a
  string literal of the handler, the configured allowed origin, or the serialisation of
  the payload the upstream sent.
\<close>

theorem endpoint_independent_response:
  assumes "\<forall>ev. event = Object ev \<longrightarrow>
             fetch rt u (request_init ev) = fetch rt (INFURA_ENDPOINT e) (request_init ev)"
  shows "outcome (handler rt (e\<lparr>INFURA_ENDPOINT := u\<rparr>) event) = outcome (handler rt e event)
       \<and> (\<forall>ev. event = Object ev \<longrightarrow>
            (httpMethod ev \<noteq> Some ''POST''
             \<or> (\<exists>response B.
                   fetch rt (INFURA_ENDPOINT e) (request_init ev) = Resolved response
                   \<and> ok response \<and> json_result response = Inr B)) \<longrightarrow>
            (\<exists>r. outcome (handler rt e event) = Returned r
                 \<and> (\<forall>f \<in> set (text_fields r).
                        f \<in> set string_literals
                      \<or> ALLOW_ORIGIN e = Some f
                      \<or> (\<exists>response B.
                            fetch rt (INFURA_ENDPOINT e) (request_init ev) = Resolved response
                            \<and> ok response \<and> json_result response = Inr B
                            \<and> f = JSON_stringify rt B))))"
proof (intro conjI allI impI)
  show "outcome (handler rt (e\<lparr>INFURA_ENDPOINT := u\<rparr>) event) = outcome (handler rt e event)"
    by (simp add: handler_snd_try_block try_block_endpoint [OF assms])
next
  fix ev
  assume ev: "event = Object ev"
    and branch: "httpMethod ev \<noteq> Some ''POST''
       \<or> (\<exists>response B.
             fetch rt (INFURA_ENDPOINT e) (request_init ev) = Resolved response
             \<and> ok response \<and> json_result response = Inr B)"
  let ?from_upstream = "\<lambda>f. \<exists>response B.
        fetch rt (INFURA_ENDPOINT e) (request_init ev) = Resolved response
        \<and> ok response \<and> json_result response = Inr B \<and> f = JSON_stringify rt B"
  have origin: "(case ALLOW_ORIGIN e of None \<Rightarrow> ''*'' | Some v \<Rightarrow> v) \<in> set string_literals
                \<or> ALLOW_ORIGIN e = Some (case ALLOW_ORIGIN e of None \<Rightarrow> ''*'' | Some v \<Rightarrow> v)"
    by (simp add: string_literals_def split: option.splits)
  consider (preflight) "httpMethod ev = Some ''OPTIONS''"
    | (refused) "httpMethod ev \<noteq> Some ''OPTIONS''" "httpMethod ev \<noteq> Some ''POST''"
    | (relayed) response B where "httpMethod ev = Some ''POST''"
        "fetch rt (INFURA_ENDPOINT e) (request_init ev) = Resolved response"
        "ok response" "json_result response = Inr B"
    using branch by blast
  then show "\<exists>r. outcome (handler rt e event) = Returned r
               \<and> (\<forall>f \<in> set (text_fields r).
                      f \<in> set string_literals \<or> ALLOW_ORIGIN e = Some f \<or> ?from_upstream f)"
  proof cases
    case preflight
    then have "outcome (handler rt e event) =
        Returned
          \<lparr>resp_body = '''',
           resp_headers =
             [(''Access-Control-Allow-Headers'', ''Authorization,Content-type''),
              (''Access-Control-Allow-Methods'', ''OPTIONS,POST'')] @ commonHeaders e,
           isBase64Encoded = False,
           statusCode = 200\<rparr>"
      by (simp add: ev handler_def try_block_def spread_preflight)
    with origin show ?thesis
      by (auto simp: text_fields_def string_literals_def commonHeaders_def)
  next
    case refused
    then have "outcome (handler rt e event) =
        Returned
          \<lparr>resp_body = '''', resp_headers = commonHeaders e,
           isBase64Encoded = False, statusCode = 405\<rparr>"
      by (simp add: ev handler_def try_block_def)
    with origin show ?thesis
      by (auto simp: text_fields_def string_literals_def commonHeaders_def)
  next
    case relayed
    from try_block_Inr_handler [OF try_block_success [OF relayed]]
    have "outcome (handler rt e event) =
        Returned
          \<lparr>resp_body = JSON_stringify rt B,
           resp_headers = (''Content-Type'', ''application/json'') # commonHeaders e,
           isBase64Encoded = False,
           statusCode = status response\<rparr>"
      by (simp add: ev)
    moreover have "?from_upstream (JSON_stringify rt B)"
      using relayed by blast
    ultimately show ?thesis
      using origin
      by (auto simp: text_fields_def string_literals_def commonHeaders_def)
  qed
qed

text \<open>
  The upstream whose answer names the first address, called through another endpoint: the
  same response, whose body is the serialisation of the payload.
\<close>

theorem endpoint_independent_response_witness:
  \<open>fetch runtime_echo (Some ''https://sepolia.infura.io/v3/fedcba9876543210'')
       (request_init example_post)
     = fetch runtime_echo (INFURA_ENDPOINT example_env) (request_init example_post)
   \<and> httpMethod example_post = Some ''POST''
   \<and> fetch runtime_echo (INFURA_ENDPOINT example_env) (request_init example_post)
       = Resolved upstream_echo
   \<and> ok upstream_echo
   \<and> json_result upstream_echo = Inr (JString ''https://mainnet.infura.io/v3/0123456789abcdef'')
   \<and> outcome (handler runtime_echo
        (example_env\<lparr>INFURA_ENDPOINT := Some ''https://sepolia.infura.io/v3/fedcba9876543210''\<rparr>)
        (Object example_post))
     = outcome (handler runtime_echo example_env (Object example_post))
   \<and> outcome (handler runtime_echo example_env (Object example_post)) =
       Returned
         \<lparr>resp_body = ''"https://mainnet.infura.io/v3/0123456789abcdef"'',
          resp_headers =
            [(''Content-Type'', ''application/json''),
             (''Access-Control-Allow-Credentials'', ''true''),
             (''Access-Control-Allow-Origin'', ''https://app.example.org'')],
          isBase64Encoded = False,
          statusCode = 200\<rparr>
   \<and> ALLOW_ORIGIN example_env = Some ''https://app.example.org''
   \<and> JSON_stringify runtime_echo (JString ''https://mainnet.infura.io/v3/0123456789abcdef'')
       = ''"https://mainnet.infura.io/v3/0123456789abcdef"''\<close>
proof -
  have h: "\<forall>ev. Object example_post = Object ev \<longrightarrow>
             fetch runtime_echo (Some ''https://sepolia.infura.io/v3/fedcba9876543210'')
               (request_init ev)
             = fetch runtime_echo (INFURA_ENDPOINT example_env) (request_init ev)"
    by (simp add: runtime_echo_def)
  have h1: "httpMethod example_post = Some ''POST''"
    by (simp add: example_post_def)
  have h2: "fetch runtime_echo (INFURA_ENDPOINT example_env) (request_init example_post)
              = Resolved upstream_echo"
    by (simp add: runtime_echo_def)
  have h3: "ok upstream_echo"
    by (simp add: upstream_echo_def)
  have h4: "json_result upstream_echo
              = Inr (JString ''https://mainnet.infura.io/v3/0123456789abcdef'')"
    by (simp add: upstream_echo_def)
  have s: \<open>JSON_stringify runtime_echo (JString ''https://mainnet.infura.io/v3/0123456789abcdef'')
             = ''"https://mainnet.infura.io/v3/0123456789abcdef"''\<close>
    by (simp add: runtime_echo_def quote_string_def)
  have u: "status upstream_echo = 200"
    by (simp add: upstream_echo_def)
  from try_block_Inr_handler [OF try_block_success [OF h1 h2 h3 h4]]
  have r: \<open>outcome (handler runtime_echo example_env (Object example_post)) =
       Returned
         \<lparr>resp_body = ''"https://mainnet.infura.io/v3/0123456789abcdef"'',
          resp_headers =
            [(''Content-Type'', ''application/json''),
             (''Access-Control-Allow-Credentials'', ''true''),
             (''Access-Control-Allow-Origin'', ''https://app.example.org'')],
          isBase64Encoded = False,
          statusCode = 200\<rparr>\<close>
    by (simp add: s u commonHeaders_example_env)
  have o: "ALLOW_ORIGIN example_env = Some ''https://app.example.org''"
    by (simp add: example_env_def)
  have same: "fetch runtime_echo (Some ''https://sepolia.infura.io/v3/fedcba9876543210'')
       (request_init example_post)
     = fetch runtime_echo (INFURA_ENDPOINT example_env) (request_init example_post)"
    by (simp add: runtime_echo_def)
  show ?thesis
    using endpoint_independent_response [OF h] same h1 h2 h3 h4 r o s
    by simp
qed

end
